theory Spec2Isabelle
  imports Main "HOL-Library.Word" "HOL-Library.Sublist"
begin

unbundle bit_operations_syntax

section \<open>The bank ledger of \<^verbatim>\<open>main.py\<close>\<close>

text \<open>
  The program keeps bank accounts in memory. An account owns an ordered log of
  transactions; \<^verbatim>\<open>deposit\<close>, \<open>withdraw\<close> and \<open>close_account\<close> mutate the
  account and print one line. The model passes the account explicitly and returns the
  mutated account together with the lines printed.

  What the program takes from its environment is an argument of the model:
  \<^item> the value of each \<^verbatim>\<open>uuid.uuid4()\<close> call (a 128-bit number),
  \<^item> the value of each \<^verbatim>\<open>datetime.now(timezone.utc)\<close> call (an instant, as an integer),
  \<^item> the lines that \<^verbatim>\<open>input\<close> reads (a list; reading past its end is \<open>EOFError\<close>),
  \<^item> the built-ins \<^verbatim>\<open>str.strip\<close> and \<^verbatim>\<open>int\<close> on strings (\<open>int\<close> gives \<open>None\<close>
    where Python raises \<open>ValueError\<close>).
\<close>

subsection \<open>Data\<close>

type_synonym uuid = "128 word"
type_synonym datetime = int

record Transaction =
  tx_id :: uuid
  tx_type :: string
  sender_name :: "string option"
  receiver_name :: "string option"
  amount :: int
  status :: string
  timestamp :: datetime

record BankAccount =
  acc_id :: uuid
  name :: string
  account_number :: string
  balance :: int
  created_at :: datetime
  transactions :: "Transaction list"
  is_closed :: bool

datatype error = EOFError

subsection \<open>Formatting\<close>

text \<open>\<^verbatim>\<open>str(n)\<close> for a Python integer, as the f-strings use it.\<close>

definition digit_char :: "nat \<Rightarrow> char" where
  "digit_char d = ''0123456789ABCDEF'' ! (d mod 16)"

fun str_nat :: "nat \<Rightarrow> string" where
  "str_nat n = (if n < 10 then [digit_char n] else str_nat (n div 10) @ [digit_char (n mod 10)])"

definition str_int :: "int \<Rightarrow> string" where
  "str_int i = (if i < 0 then CHR ''-'' # str_nat (nat (- i)) else str_nat (nat i))"

text \<open>\<^verbatim>\<open>u.hex[:10].upper()\<close>: the ten leading hexadecimal digits of the 128-bit value.\<close>

definition hex10_upper :: "uuid \<Rightarrow> string" where
  "hex10_upper u = map (\<lambda>i. digit_char (unat (drop_bit (124 - 4 * i) u AND 15))) [0..<10]"

subsection \<open>The account\<close>

definition BankAccount_init :: "uuid \<Rightarrow> string \<Rightarrow> string \<Rightarrow> int \<Rightarrow> datetime \<Rightarrow> BankAccount" where
  "BankAccount_init i n num b c =
     \<lparr>acc_id = i, name = n, account_number = num, balance = b, created_at = c,
      transactions = [], is_closed = False\<rparr>"

text \<open>
  \<open>record_transaction\<close> draws a fresh identifier \<open>u\<close> and the current time \<open>now\<close>,
  appends the new transaction to the log and returns it.
\<close>

definition record_transaction ::
  "uuid \<Rightarrow> datetime \<Rightarrow> string \<Rightarrow> string option \<Rightarrow> string option \<Rightarrow> int \<Rightarrow> string \<Rightarrow>
   BankAccount \<Rightarrow> Transaction \<times> BankAccount" where
  "record_transaction u now t_type sender receiver amt st self =
     (let t = \<lparr>tx_id = u, tx_type = t_type, sender_name = sender, receiver_name = receiver,
               amount = amt, status = st, timestamp = now\<rparr>
      in (t, self\<lparr>transactions := transactions self @ [t]\<rparr>))"

definition deposit :: "uuid \<Rightarrow> datetime \<Rightarrow> int \<Rightarrow> BankAccount \<Rightarrow> BankAccount \<times> string list" where
  "deposit u now amt self =
     (if is_closed self then (self, [''This account is closed. Operation not allowed.''])
      else if amt \<le> 0 then
        (snd (record_transaction u now ''deposit'' None (Some (name self)) amt ''failed'' self),
         [''Amount must be positive.''])
      else
        let self1 = self\<lparr>balance := balance self + amt\<rparr>;
            self2 = snd (record_transaction u now ''deposit'' None (Some (name self1)) amt
                           ''completed'' self1)
        in (self2, [''Deposited '' @ str_int amt @ ''. New balance: '' @ str_int (balance self2)]))"

definition withdraw :: "uuid \<Rightarrow> datetime \<Rightarrow> int \<Rightarrow> BankAccount \<Rightarrow> BankAccount \<times> string list" where
  "withdraw u now amt self =
     (if is_closed self then (self, [''This account is closed. Operation not allowed.''])
      else if amt \<le> 0 then
        (snd (record_transaction u now ''withdraw'' (Some (name self)) None amt ''failed'' self),
         [''Amount must be positive.''])
      else if amt > balance self then
        (snd (record_transaction u now ''withdraw'' (Some (name self)) None amt ''failed'' self),
         [''Insufficient funds.''])
      else
        let self1 = self\<lparr>balance := balance self - amt\<rparr>;
            self2 = snd (record_transaction u now ''withdraw'' (Some (name self1)) None amt
                           ''completed'' self1)
        in (self2, [''Withdrawn '' @ str_int amt @ ''. New balance: '' @ str_int (balance self2)]))"

definition close_account :: "uuid \<Rightarrow> datetime \<Rightarrow> BankAccount \<Rightarrow> BankAccount \<times> string list" where
  "close_account u now self =
     (if is_closed self then (self, [''Account is already closed.''])
      else
        let self1 = snd (record_transaction u now ''close'' (Some (name self)) None (balance self)
                           ''completed'' self);
            self2 = self1\<lparr>balance := 0\<rparr>;
            self3 = self2\<lparr>is_closed := True\<rparr>;
            self4 = self3\<lparr>name := name self3 @ '' (Closed)''\<rparr>
        in (self4, [''Account '' @ account_number self4 @
                    '' has been closed and balance reset to zero.'']))"

subsection \<open>Creating an account\<close>

text \<open>
  The loop of \<open>create_account\<close> that asks for the initial balance until \<^verbatim>\<open>int\<close>
  accepts the line. It consumes the input lines; each rejected line prints
  \<^verbatim>\<open>Enter an integer.\<close>. The result is the balance, the lines left and what was
  written (the prompt of every \<open>input\<close> call is written too).
\<close>

fun read_balance :: "(string \<Rightarrow> int option) \<Rightarrow> string list \<Rightarrow> error + (int \<times> string list \<times> string list)" where
  "read_balance py_int [] = Inl EOFError"
| "read_balance py_int (l # ls) =
     (case py_int l of
        Some b \<Rightarrow> Inr (b, ls, [''Initial balance: ''])
      | None \<Rightarrow>
          (case read_balance py_int ls of
             Inl e \<Rightarrow> Inl e
           | Inr (b, rest, out) \<Rightarrow> Inr (b, rest, [''Initial balance: '', ''Enter an integer.''] @ out)))"

text \<open>
  \<open>create_account\<close>: \<open>u_num\<close> is the identifier drawn for a generated account number
  (drawn only when the line entered is blank), \<open>u_acc\<close> and \<open>now_acc\<close> are the
  account's identifier and creation time, \<open>u_tx\<close> and \<open>now_tx\<close> those of the
  opening transaction (drawn only when the balance is positive). The global list
  \<open>accounts\<close> holds a reference to the account, so the list returned holds the account
  as it is when the function returns. The result is the account, the global list, the
  input lines left and the text written.
\<close>

definition create_account ::
  "(string \<Rightarrow> string) \<Rightarrow> (string \<Rightarrow> int option) \<Rightarrow> uuid \<Rightarrow> uuid \<Rightarrow> datetime \<Rightarrow> uuid \<Rightarrow> datetime \<Rightarrow>
   string list \<Rightarrow> BankAccount list \<Rightarrow>
   error + (BankAccount \<times> BankAccount list \<times> string list \<times> string list)" where
  "create_account strip py_int u_num u_acc now_acc u_tx now_tx inp accounts =
     (case inp of
        [] \<Rightarrow> Inl EOFError
      | l1 # inp1 \<Rightarrow>
          let nm = strip l1 in
          (case inp1 of
             [] \<Rightarrow> Inl EOFError
           | l2 # inp2 \<Rightarrow>
               let entered = strip l2;
                   num = (if entered = [] then hex10_upper u_num else entered);
                   out0 = [''Create a new account.'', ''Account holder name: '',
                           ''Account number (press Enter to auto-generate): ''] @
                          (if entered = [] then [''Generated account number: '' @ num] else [])
               in
               (case read_balance py_int inp2 of
                  Inl e \<Rightarrow> Inl e
                | Inr (b, rest, out1) \<Rightarrow>
                    let acc = BankAccount_init u_acc nm num b now_acc;
                        acc1 = (if b > 0
                                then snd (record_transaction u_tx now_tx ''deposit'' None
                                            (Some (name acc)) b ''completed'' acc)
                                else acc)
                    in Inr (acc1, accounts @ [acc1], rest,
                            out0 @ out1 @
                            [''Account '' @ account_number acc1 @ '' created successfully.'']))))"

subsection \<open>A session on one account\<close>

text \<open>
  The menu applies deposits, withdrawals and closings to an account, one after the
  other; each step comes with the identifier and the time that \<open>record_transaction\<close>
  would draw. \<open>run_ops\<close> is the account after the whole sequence, \<open>states\<close> the
  account after each step.
\<close>

datatype operation = Deposit int | Withdraw int | Close

fun apply_op :: "BankAccount \<Rightarrow> uuid \<times> datetime \<times> operation \<Rightarrow> BankAccount" where
  "apply_op a (u, now, Deposit amt) = fst (deposit u now amt a)"
| "apply_op a (u, now, Withdraw amt) = fst (withdraw u now amt a)"
| "apply_op a (u, now, Close) = fst (close_account u now a)"

fun run_ops :: "BankAccount \<Rightarrow> (uuid \<times> datetime \<times> operation) list \<Rightarrow> BankAccount" where
  "run_ops a [] = a"
| "run_ops a (x # xs) = run_ops (apply_op a x) xs"

fun states :: "BankAccount \<Rightarrow> (uuid \<times> datetime \<times> operation) list \<Rightarrow> BankAccount list" where
  "states a [] = []"
| "states a (x # xs) = apply_op a x # states (apply_op a x) xs"

subsection \<open>Example data\<close>

text \<open>
  The account of the worked examples, and the two built-ins on the lines the examples
  enter: none of these lines has white space around it, \<^verbatim>\<open>int("-5")\<close> is \<open>-5\<close>,
  \<^verbatim>\<open>int("100")\<close> is \<open>100\<close>, and \<^verbatim>\<open>int\<close> rejects the other lines used.
\<close>

definition alice :: BankAccount where
  "alice = BankAccount_init 1 ''Alice'' ''ACC1'' 100 0"

definition example_strip :: "string \<Rightarrow> string" where
  "example_strip s = s"

definition example_int :: "string \<Rightarrow> int option" where
  "example_int s = (if s = ''-5'' then Some (- 5) else if s = ''100'' then Some 100 else None)"

section \<open>Properties\<close>

subsection \<open>Auxiliary facts\<close>

text \<open>What \<open>record_transaction\<close> does to the account.\<close>

lemma record_transaction_snd:
  "snd (record_transaction u now k s r amt st a) =
     a\<lparr>transactions := transactions a @
        [\<lparr>tx_id = u, tx_type = k, sender_name = s, receiver_name = r, amount = amt,
          status = st, timestamp = now\<rparr>]\<rparr>"
  by (simp add: record_transaction_def Let_def)

text \<open>
  One step of a session: it keeps a balance that is not negative, it keeps closed
  accounts at balance 0, and it leaves the log as it is or appends one transaction.
\<close>

lemma apply_op_nonneg: "0 \<le> balance a \<Longrightarrow> 0 \<le> balance (apply_op a x)"
proof -
  assume nn: "0 \<le> balance a"
  obtain u now op where x: "x = (u, now, op)" by (cases x)
  show ?thesis
  proof (cases op)
    case (Deposit amt)
    with x nn show ?thesis by (simp add: deposit_def record_transaction_snd)
  next
    case (Withdraw amt)
    with x nn show ?thesis by (simp add: withdraw_def record_transaction_snd)
  next
    case Close
    with x nn show ?thesis by (simp add: close_account_def record_transaction_snd)
  qed
qed

lemma states_nonneg: "0 \<le> balance a \<Longrightarrow> \<forall>s \<in> set (states a ops). 0 \<le> balance s"
proof (induction ops arbitrary: a)
  case Nil
  show ?case by simp
next
  case (Cons x xs)
  from Cons.prems have "0 \<le> balance (apply_op a x)" by (rule apply_op_nonneg)
  with Cons.IH show ?case by simp
qed

lemma apply_op_closed_zero:
  "is_closed a \<longrightarrow> balance a = 0 \<Longrightarrow> is_closed (apply_op a x) \<longrightarrow> balance (apply_op a x) = 0"
proof -
  assume inv: "is_closed a \<longrightarrow> balance a = 0"
  obtain u now op where x: "x = (u, now, op)" by (cases x)
  show ?thesis
  proof (cases op)
    case (Deposit amt)
    with x inv show ?thesis by (simp add: deposit_def record_transaction_snd)
  next
    case (Withdraw amt)
    with x inv show ?thesis by (simp add: withdraw_def record_transaction_snd)
  next
    case Close
    with x inv show ?thesis by (simp add: close_account_def record_transaction_snd)
  qed
qed

lemma run_ops_closed_zero:
  "is_closed a \<longrightarrow> balance a = 0 \<Longrightarrow> is_closed (run_ops a ops) \<longrightarrow> balance (run_ops a ops) = 0"
proof (induction ops arbitrary: a)
  case Nil
  then show ?case by simp
next
  case (Cons x xs)
  from Cons.prems have "is_closed (apply_op a x) \<longrightarrow> balance (apply_op a x) = 0"
    by (rule apply_op_closed_zero)
  then show ?case using Cons.IH by simp
qed

lemma apply_op_log:
  "transactions (apply_op a x) = transactions a \<or>
   (\<exists>t. transactions (apply_op a x) = transactions a @ [t])"
proof -
  obtain u now op where x: "x = (u, now, op)" by (cases x)
  show ?thesis
  proof (cases op)
    case (Deposit amt)
    with x show ?thesis by (simp add: deposit_def record_transaction_snd)
  next
    case (Withdraw amt)
    with x show ?thesis by (simp add: withdraw_def record_transaction_snd)
  next
    case Close
    with x show ?thesis by (simp add: close_account_def record_transaction_snd)
  qed
qed

lemma run_ops_log_prefix: "prefix (transactions a) (transactions (run_ops a ops))"
proof (induction ops arbitrary: a)
  case Nil
  show ?case by simp
next
  case (Cons x xs)
  have "prefix (transactions a) (transactions (apply_op a x))"
    using apply_op_log [of a x] by auto
  moreover have "prefix (transactions (apply_op a x)) (transactions (run_ops (apply_op a x) xs))"
    by (rule Cons.IH)
  ultimately show ?case
    using prefix_order.trans by auto
qed

text \<open>
  \<open>create_account\<close> returns once \<^verbatim>\<open>int\<close> accepts a line: on the name, the account
  number, any lines that \<^verbatim>\<open>int\<close> rejects and then a line that it reads as \<open>b\<close>, the
  account created has balance \<open>b\<close> and a log that holds the opening deposit when
  \<open>0 < b\<close> and nothing otherwise.
\<close>

lemma read_balance_skips:
  assumes "\<forall>l \<in> set bad. py_int l = None" and "py_int lb = Some b"
  shows "\<exists>out. read_balance py_int (bad @ lb # rest) = Inr (b, rest, out)"
  using assms by (induction bad) auto

lemma create_account_result:
  assumes "\<forall>l \<in> set bad. py_int l = None" and "py_int lb = Some b"
  shows "\<exists>out. create_account strip py_int u_num u_acc now_acc u_tx now_tx
                  (l1 # l2 # bad @ lb # rest) accounts =
           Inr ((BankAccount_init u_acc (strip l1)
                   (if strip l2 = [] then hex10_upper u_num else strip l2) b now_acc)
                  \<lparr>transactions :=
                     if 0 < b
                     then [\<lparr>tx_id = u_tx, tx_type = ''deposit'', sender_name = None,
                            receiver_name = Some (strip l1), amount = b,
                            status = ''completed'', timestamp = now_tx\<rparr>]
                     else []\<rparr>,
                accounts @
                [(BankAccount_init u_acc (strip l1)
                   (if strip l2 = [] then hex10_upper u_num else strip l2) b now_acc)
                  \<lparr>transactions :=
                     if 0 < b
                     then [\<lparr>tx_id = u_tx, tx_type = ''deposit'', sender_name = None,
                            receiver_name = Some (strip l1), amount = b,
                            status = ''completed'', timestamp = now_tx\<rparr>]
                     else []\<rparr>],
                rest, out)"
proof -
  from read_balance_skips [OF assms] obtain out1
    where rb: "read_balance py_int (bad @ lb # rest) = Inr (b, rest, out1)" by blast
  show ?thesis
    by (simp add: create_account_def rb Let_def record_transaction_snd BankAccount_init_def)
qed

subsection \<open>The balance is not negative\<close>

text \<open>
  Claim C1 says that the balance of every account is at least 0 after every operation,
  creation included. Creation does not check the initial balance: entering \<open>-5\<close>
  creates an account with balance \<open>-5\<close>, and a deposit of 2 leaves it at \<open>-3\<close>.
\<close>

theorem balance_nonneg_counterexample:
  "create_account example_strip example_int 1 2 3 4 5 [''Alice'', ''ACC1'', ''-5''] [] =
     Inr (\<lparr>acc_id = 2, name = ''Alice'', account_number = ''ACC1'', balance = - 5,
            created_at = 3, transactions = [], is_closed = False\<rparr>,
          [\<lparr>acc_id = 2, name = ''Alice'', account_number = ''ACC1'', balance = - 5,
            created_at = 3, transactions = [], is_closed = False\<rparr>],
          [],
          [''Create a new account.'', ''Account holder name: '',
           ''Account number (press Enter to auto-generate): '', ''Initial balance: '',
           ''Account ACC1 created successfully.'']) \<and>
   \<not> 0 \<le> balance \<lparr>acc_id = 2, name = ''Alice'', account_number = ''ACC1'', balance = - 5,
            created_at = 3, transactions = [], is_closed = False\<rparr> \<and>
   \<not> 0 \<le> balance (fst (deposit 7 8 2
           \<lparr>acc_id = 2, name = ''Alice'', account_number = ''ACC1'', balance = - 5,
            created_at = 3, transactions = [], is_closed = False\<rparr>))"
  by (simp add: create_account_def example_strip_def example_int_def BankAccount_init_def
      deposit_def record_transaction_snd Let_def)

text \<open>
  Claim C1, amended. For every account created with an initial balance that is at
  least 0, the balance is at least 0 after the creation and after each operation of
  every sequence of deposits, withdrawals and closings.
\<close>

theorem balance_nonneg_invariant:
  assumes "\<forall>l \<in> set bad. py_int l = None" and "py_int lb = Some b" and "0 \<le> b"
  shows "\<exists>acc out.
           create_account strip py_int u_num u_acc now_acc u_tx now_tx
             (l1 # l2 # bad @ lb # rest) accounts = Inr (acc, accounts @ [acc], rest, out) \<and>
           0 \<le> balance acc \<and> (\<forall>s \<in> set (states acc ops). 0 \<le> balance s)"
proof -
  from create_account_result [OF assms(1,2)] obtain acc out where
    c: "create_account strip py_int u_num u_acc now_acc u_tx now_tx
          (l1 # l2 # bad @ lb # rest) accounts = Inr (acc, accounts @ [acc], rest, out)"
    and acc: "acc = (BankAccount_init u_acc (strip l1)
                      (if strip l2 = [] then hex10_upper u_num else strip l2) b now_acc)
                \<lparr>transactions :=
                   if 0 < b
                   then [\<lparr>tx_id = u_tx, tx_type = ''deposit'', sender_name = None,
                          receiver_name = Some (strip l1), amount = b,
                          status = ''completed'', timestamp = now_tx\<rparr>]
                   else []\<rparr>"
    by blast
  from acc assms(3) have nn: "0 \<le> balance acc" by (simp add: BankAccount_init_def)
  from states_nonneg [OF nn] have "\<forall>s \<in> set (states acc ops). 0 \<le> balance s" .
  with c nn show ?thesis by blast
qed

theorem balance_nonneg_invariant_witness:
  "example_int ''x'' = None \<and> example_int ''100'' = Some 100 \<and> (0::int) \<le> 100 \<and>
   (\<exists>acc out.
      create_account example_strip example_int 1 2 3 4 5 [''Alice'', ''ACC1'', ''x'', ''100''] [] =
        Inr (acc, [acc], [], out) \<and>
      balance acc = 100 \<and>
      map balance (states acc [(6, 7, Deposit 50), (8, 9, Withdraw 200), (10, 11, Close)]) =
        [150, 150, 0])"
proof -
  have h1: "\<forall>l \<in> set [''x'']. example_int l = None" by (simp add: example_int_def)
  have h2: "example_int ''100'' = Some 100" by (simp add: example_int_def)
  have h3: "(0::int) \<le> 100" by simp
  from balance_nonneg_invariant [OF h1 h2 h3, of example_strip 1 2 3 4 5
      "''Alice''" "''ACC1''" "[]" "[]"
      "[(6, 7, Deposit 50), (8, 9, Withdraw 200), (10, 11, Close)]"]
  obtain acc out where
    c: "create_account example_strip example_int 1 2 3 4 5 [''Alice'', ''ACC1'', ''x'', ''100''] [] =
          Inr (acc, [acc], [], out)"
    by auto
  have "create_account example_strip example_int 1 2 3 4 5 [''Alice'', ''ACC1'', ''x'', ''100''] [] =
          Inr (\<lparr>acc_id = 2, name = ''Alice'', account_number = ''ACC1'', balance = 100,
                 created_at = 3,
                 transactions = [\<lparr>tx_id = 4, tx_type = ''deposit'', sender_name = None,
                                  receiver_name = Some ''Alice'', amount = 100,
                                  status = ''completed'', timestamp = 5\<rparr>],
                 is_closed = False\<rparr>,
               [\<lparr>acc_id = 2, name = ''Alice'', account_number = ''ACC1'', balance = 100,
                 created_at = 3,
                 transactions = [\<lparr>tx_id = 4, tx_type = ''deposit'', sender_name = None,
                                  receiver_name = Some ''Alice'', amount = 100,
                                  status = ''completed'', timestamp = 5\<rparr>],
                 is_closed = False\<rparr>],
               [],
               [''Create a new account.'', ''Account holder name: '',
                ''Account number (press Enter to auto-generate): '', ''Initial balance: '',
                ''Enter an integer.'', ''Initial balance: '',
                ''Account ACC1 created successfully.''])"
    by (simp add: create_account_def example_strip_def example_int_def BankAccount_init_def
        record_transaction_snd Let_def)
  with c have acc: "acc = \<lparr>acc_id = 2, name = ''Alice'', account_number = ''ACC1'', balance = 100,
                 created_at = 3,
                 transactions = [\<lparr>tx_id = 4, tx_type = ''deposit'', sender_name = None,
                                  receiver_name = Some ''Alice'', amount = 100,
                                  status = ''completed'', timestamp = 5\<rparr>],
                 is_closed = False\<rparr>"
    by simp
  have "balance acc = 100 \<and>
        map balance (states acc [(6, 7, Deposit 50), (8, 9, Withdraw 200), (10, 11, Close)]) =
          [150, 150, 0]"
    unfolding acc
    by (simp add: deposit_def withdraw_def close_account_def record_transaction_snd Let_def)
  with c h1 h2 show ?thesis by auto
qed

subsection \<open>Deposits and withdrawals on an open account\<close>

text \<open>
  Claim C2. On an open account, a deposit of a positive amount adds exactly the amount
  to the balance and appends exactly one transaction to the log: a deposit, completed,
  of that amount, received by the account holder and sent by nobody.
\<close>

theorem deposit_open_positive:
  assumes "\<not> is_closed a" and "0 < amt"
  shows "balance (fst (deposit u now amt a)) = balance a + amt \<and>
         transactions (fst (deposit u now amt a)) =
           transactions a @
             [\<lparr>tx_id = u, tx_type = ''deposit'', sender_name = None,
               receiver_name = Some (name a), amount = amt, status = ''completed'',
               timestamp = now\<rparr>]"
  using assms by (simp add: deposit_def record_transaction_snd)

theorem deposit_open_positive_witness:
  "\<not> is_closed alice \<and> (0::int) < 50 \<and>
   balance (fst (deposit 7 8 50 alice)) = 150 \<and>
   transactions (fst (deposit 7 8 50 alice)) =
     [\<lparr>tx_id = 7, tx_type = ''deposit'', sender_name = None, receiver_name = Some ''Alice'',
       amount = 50, status = ''completed'', timestamp = 8\<rparr>]"
  using deposit_open_positive [of alice 50 7 8]
  by (simp add: alice_def BankAccount_init_def)

text \<open>
  Claim C3. On an open account, a withdrawal of an amount that is positive and at most
  the balance takes exactly the amount from the balance and appends one completed
  withdraw transaction sent by the account holder and received by nobody; a withdrawal
  of more than the balance leaves the balance as it is and appends one failed
  transaction.
\<close>

theorem withdraw_open:
  assumes "\<not> is_closed a"
  shows "(0 < amt \<and> amt \<le> balance a \<longrightarrow>
            balance (fst (withdraw u now amt a)) = balance a - amt \<and>
            transactions (fst (withdraw u now amt a)) =
              transactions a @
                [\<lparr>tx_id = u, tx_type = ''withdraw'', sender_name = Some (name a),
                  receiver_name = None, amount = amt, status = ''completed'',
                  timestamp = now\<rparr>]) \<and>
         (balance a < amt \<longrightarrow>
            balance (fst (withdraw u now amt a)) = balance a \<and>
            transactions (fst (withdraw u now amt a)) =
              transactions a @
                [\<lparr>tx_id = u, tx_type = ''withdraw'', sender_name = Some (name a),
                  receiver_name = None, amount = amt, status = ''failed'',
                  timestamp = now\<rparr>])"
  using assms by (simp add: withdraw_def record_transaction_snd)

theorem withdraw_open_witness:
  "\<not> is_closed alice \<and> (0::int) < 30 \<and> 30 \<le> balance alice \<and> balance alice < 200 \<and>
   balance (fst (withdraw 7 8 30 alice)) = 70 \<and>
   map status (transactions (fst (withdraw 7 8 30 alice))) = [''completed''] \<and>
   balance (fst (withdraw 7 8 200 alice)) = 100 \<and>
   map status (transactions (fst (withdraw 7 8 200 alice))) = [''failed'']"
  using withdraw_open [of alice 30 7 8] withdraw_open [of alice 200 7 8]
  by (simp add: alice_def BankAccount_init_def)

subsection \<open>Closing\<close>

text \<open>
  Claim C4. Closing an open account appends exactly one completed close transaction
  whose amount is the balance before closing, sets the balance to 0, sets the closed
  flag and appends the marker \<^verbatim>\<open> (Closed)\<close> to the name, and changes nothing else;
  closing the account a second time changes nothing at all.
\<close>

theorem close_account_once_and_again:
  assumes "\<not> is_closed a"
  shows "fst (close_account u now a) =
           a\<lparr>transactions := transactions a @
                [\<lparr>tx_id = u, tx_type = ''close'', sender_name = Some (name a),
                  receiver_name = None, amount = balance a, status = ''completed'',
                  timestamp = now\<rparr>],
             balance := 0, is_closed := True, name := name a @ '' (Closed)''\<rparr> \<and>
         fst (close_account u' now' (fst (close_account u now a))) = fst (close_account u now a)"
  using assms by (simp add: close_account_def record_transaction_snd)

theorem close_account_once_and_again_witness:
  "\<not> is_closed alice \<and>
   fst (close_account 9 10 alice) =
     \<lparr>acc_id = 1, name = ''Alice (Closed)'', account_number = ''ACC1'', balance = 0,
      created_at = 0,
      transactions = [\<lparr>tx_id = 9, tx_type = ''close'', sender_name = Some ''Alice'',
                       receiver_name = None, amount = 100, status = ''completed'',
                       timestamp = 10\<rparr>],
      is_closed = True\<rparr> \<and>
   fst (close_account 11 12 (fst (close_account 9 10 alice))) = fst (close_account 9 10 alice)"
  using close_account_once_and_again [of alice 9 10 11 12]
  by (simp add: alice_def BankAccount_init_def close_account_def)

subsection \<open>Operations on a closed account\<close>

text \<open>
  Claim C5. On a closed account, \<open>deposit\<close>, \<open>withdraw\<close> and \<open>close_account\<close>
  return the account unchanged, whatever the amount: no transaction is appended and
  the balance stays what it was, which is 0 for every closed account that a sequence
  of operations on an open account arrives at.
\<close>

theorem closed_account_unchanged:
  assumes "is_closed a"
  shows "fst (deposit u now amt a) = a \<and> fst (withdraw u now amt a) = a \<and>
         fst (close_account u now a) = a \<and>
         (\<forall>a0 ops. \<not> is_closed a0 \<and> a = run_ops a0 ops \<longrightarrow> balance a = 0)"
proof -
  have "balance a = 0" if "\<not> is_closed a0" and "a = run_ops a0 ops" for a0 ops
    using run_ops_closed_zero [of a0 ops] that assms by simp
  then show ?thesis
    using assms by (simp add: deposit_def withdraw_def close_account_def)
qed

theorem closed_account_unchanged_witness:
  "is_closed (fst (close_account 9 10 alice)) \<and>
   fst (deposit 11 12 50 (fst (close_account 9 10 alice))) = fst (close_account 9 10 alice) \<and>
   fst (withdraw 11 12 50 (fst (close_account 9 10 alice))) = fst (close_account 9 10 alice) \<and>
   fst (close_account 11 12 (fst (close_account 9 10 alice))) = fst (close_account 9 10 alice) \<and>
   \<not> is_closed alice \<and> fst (close_account 9 10 alice) = run_ops alice [(9, 10, Close)] \<and>
   balance (fst (close_account 9 10 alice)) = 0"
proof -
  have c: "is_closed (fst (close_account 9 10 alice))"
    by (simp add: close_account_def alice_def BankAccount_init_def record_transaction_snd)
  have o: "\<not> is_closed alice"
    by (simp add: alice_def BankAccount_init_def)
  have r: "fst (close_account 9 10 alice) = run_ops alice [(9, 10, Close)]"
    by simp
  from closed_account_unchanged [OF c, of 11 12 50] o r c show ?thesis
    by blast
qed

text \<open>
  Claim C6 says that a deposit on a closed account appends a failed transaction. The
  code prints a message and returns before any transaction is recorded: after closing
  the example account, its log holds the close transaction only, before and after a
  deposit of 50.
\<close>

theorem deposit_closed_logs_failed_counterexample:
  "is_closed (fst (close_account 9 10 alice)) \<and>
   transactions (fst (deposit 11 12 50 (fst (close_account 9 10 alice)))) =
     transactions (fst (close_account 9 10 alice)) \<and>
   map status (transactions (fst (deposit 11 12 50 (fst (close_account 9 10 alice))))) =
     [''completed'']"
  by (simp add: deposit_def close_account_def alice_def BankAccount_init_def record_transaction_snd)

text \<open>
  Claim C6, amended. On a closed account, a deposit of any amount changes neither the
  balance nor the log nor any other field; it only prints that the account is closed.
\<close>

theorem deposit_closed_prints_only:
  assumes "is_closed a"
  shows "deposit u now amt a = (a, [''This account is closed. Operation not allowed.''])"
  using assms by (simp add: deposit_def)

theorem deposit_closed_prints_only_witness:
  "is_closed (fst (close_account 9 10 alice)) \<and>
   deposit 11 12 50 (fst (close_account 9 10 alice)) =
     (\<lparr>acc_id = 1, name = ''Alice (Closed)'', account_number = ''ACC1'', balance = 0,
       created_at = 0,
       transactions = [\<lparr>tx_id = 9, tx_type = ''close'', sender_name = Some ''Alice'',
                        receiver_name = None, amount = 100, status = ''completed'',
                        timestamp = 10\<rparr>],
       is_closed = True\<rparr>,
      [''This account is closed. Operation not allowed.''])"
proof -
  have c: "is_closed (fst (close_account 9 10 alice))"
    by (simp add: close_account_def alice_def BankAccount_init_def record_transaction_snd)
  have v: "fst (close_account 9 10 alice) =
     \<lparr>acc_id = 1, name = ''Alice (Closed)'', account_number = ''ACC1'', balance = 0,
       created_at = 0,
       transactions = [\<lparr>tx_id = 9, tx_type = ''close'', sender_name = Some ''Alice'',
                        receiver_name = None, amount = 100, status = ''completed'',
                        timestamp = 10\<rparr>],
       is_closed = True\<rparr>"
    by (simp add: close_account_def alice_def BankAccount_init_def record_transaction_snd)
  from deposit_closed_prints_only [OF c, of 11 12 50] c v show ?thesis
    by simp
qed

subsection \<open>Amounts that are not positive\<close>

text \<open>
  Claim C7. On an open account, a deposit of an amount that is at most 0 returns
  normally with the balance unchanged and exactly one failed deposit transaction
  appended, and a withdrawal of such an amount returns normally with the balance
  unchanged and exactly one failed withdraw transaction appended. Both functions
  return the account and a printed line; neither has an error result.
\<close>

theorem nonpositive_amount_fails:
  assumes "\<not> is_closed a" and "amt \<le> 0"
  shows "deposit u now amt a =
           (a\<lparr>transactions := transactions a @
                [\<lparr>tx_id = u, tx_type = ''deposit'', sender_name = None,
                  receiver_name = Some (name a), amount = amt, status = ''failed'',
                  timestamp = now\<rparr>]\<rparr>,
            [''Amount must be positive.'']) \<and>
         withdraw u now amt a =
           (a\<lparr>transactions := transactions a @
                [\<lparr>tx_id = u, tx_type = ''withdraw'', sender_name = Some (name a),
                  receiver_name = None, amount = amt, status = ''failed'',
                  timestamp = now\<rparr>]\<rparr>,
            [''Amount must be positive.''])"
  using assms by (simp add: deposit_def withdraw_def record_transaction_snd)

theorem nonpositive_amount_fails_witness:
  "\<not> is_closed alice \<and> (- 5 :: int) \<le> 0 \<and>
   balance (fst (deposit 7 8 (- 5) alice)) = 100 \<and>
   map status (transactions (fst (deposit 7 8 (- 5) alice))) = [''failed''] \<and>
   balance (fst (withdraw 7 8 (- 5) alice)) = 100 \<and>
   map status (transactions (fst (withdraw 7 8 (- 5) alice))) = [''failed'']"
  using nonpositive_amount_fails [of alice "- 5" 7 8]
  by (simp add: alice_def BankAccount_init_def)

subsection \<open>The transaction log\<close>

text \<open>
  Claim C8. Each of \<open>deposit\<close>, \<open>withdraw\<close> and \<open>close_account\<close> leaves the log
  as it is or appends exactly one transaction at its end, \<open>record_transaction\<close>
  appends exactly the transaction it returns, and after any sequence of operations the
  log starts with the log before it: no transaction is modified, moved or removed.
\<close>

theorem log_append_only:
  "(transactions (fst (deposit u now amt a)) = transactions a \<or>
      (\<exists>t. transactions (fst (deposit u now amt a)) = transactions a @ [t])) \<and>
   (transactions (fst (withdraw u now amt a)) = transactions a \<or>
      (\<exists>t. transactions (fst (withdraw u now amt a)) = transactions a @ [t])) \<and>
   (transactions (fst (close_account u now a)) = transactions a \<or>
      (\<exists>t. transactions (fst (close_account u now a)) = transactions a @ [t])) \<and>
   transactions (snd (record_transaction u now k s r amt st a)) =
     transactions a @ [fst (record_transaction u now k s r amt st a)] \<and>
   prefix (transactions a) (transactions (run_ops a ops))"
proof -
  have "transactions (fst (deposit u now amt a)) = transactions a \<or>
      (\<exists>t. transactions (fst (deposit u now amt a)) = transactions a @ [t])"
    using apply_op_log [of a "(u, now, Deposit amt)"] by simp
  moreover have "transactions (fst (withdraw u now amt a)) = transactions a \<or>
      (\<exists>t. transactions (fst (withdraw u now amt a)) = transactions a @ [t])"
    using apply_op_log [of a "(u, now, Withdraw amt)"] by simp
  moreover have "transactions (fst (close_account u now a)) = transactions a \<or>
      (\<exists>t. transactions (fst (close_account u now a)) = transactions a @ [t])"
    using apply_op_log [of a "(u, now, Close)"] by simp
  moreover have "transactions (snd (record_transaction u now k s r amt st a)) =
     transactions a @ [fst (record_transaction u now k s r amt st a)]"
    by (simp add: record_transaction_def Let_def)
  ultimately show ?thesis
    using run_ops_log_prefix [of a ops] by blast
qed

subsection \<open>Creation\<close>

text \<open>
  Claim C9. Creation does not check the initial balance. The constructor gives an open
  account with the balance passed and an empty log, and \<open>create_account\<close> returns an
  open account whose balance is the number entered, negative or not; its log holds
  one completed deposit of the initial balance when that balance is positive and is
  empty otherwise.
\<close>

theorem create_account_unvalidated:
  assumes "\<forall>l \<in> set bad. py_int l = None" and "py_int lb = Some b"
  shows "balance (BankAccount_init i n num b c) = b \<and>
         \<not> is_closed (BankAccount_init i n num b c) \<and>
         transactions (BankAccount_init i n num b c) = [] \<and>
         (\<exists>acc out.
            create_account strip py_int u_num u_acc now_acc u_tx now_tx
              (l1 # l2 # bad @ lb # rest) accounts = Inr (acc, accounts @ [acc], rest, out) \<and>
            balance acc = b \<and> \<not> is_closed acc \<and>
            transactions acc =
              (if 0 < b
               then [\<lparr>tx_id = u_tx, tx_type = ''deposit'', sender_name = None,
                      receiver_name = Some (strip l1), amount = b, status = ''completed'',
                      timestamp = now_tx\<rparr>]
               else []))"
proof -
  from create_account_result [OF assms] obtain out where
    "create_account strip py_int u_num u_acc now_acc u_tx now_tx
       (l1 # l2 # bad @ lb # rest) accounts =
     Inr ((BankAccount_init u_acc (strip l1)
             (if strip l2 = [] then hex10_upper u_num else strip l2) b now_acc)
            \<lparr>transactions :=
               if 0 < b
               then [\<lparr>tx_id = u_tx, tx_type = ''deposit'', sender_name = None,
                      receiver_name = Some (strip l1), amount = b,
                      status = ''completed'', timestamp = now_tx\<rparr>]
               else []\<rparr>,
          accounts @
          [(BankAccount_init u_acc (strip l1)
             (if strip l2 = [] then hex10_upper u_num else strip l2) b now_acc)
            \<lparr>transactions :=
               if 0 < b
               then [\<lparr>tx_id = u_tx, tx_type = ''deposit'', sender_name = None,
                      receiver_name = Some (strip l1), amount = b,
                      status = ''completed'', timestamp = now_tx\<rparr>]
               else []\<rparr>],
          rest, out)"
    by blast
  then show ?thesis
    by (simp add: BankAccount_init_def)
qed

theorem create_account_unvalidated_witness:
  "example_int ''x'' = None \<and> example_int ''-5'' = Some (- 5) \<and>
   (\<exists>acc out.
      create_account example_strip example_int 1 2 3 4 5 [''Alice'', ''ACC1'', ''x'', ''-5''] [] =
        Inr (acc, [acc], [], out) \<and>
      balance acc = - 5 \<and> \<not> is_closed acc \<and> transactions acc = [])"
proof -
  have h1: "\<forall>l \<in> set [''x'']. example_int l = None" by (simp add: example_int_def)
  have h2: "example_int ''-5'' = Some (- 5)" by (simp add: example_int_def)
  from create_account_unvalidated [OF h1 h2, of 0 "[]" "[]" 0 example_strip 1 2 3 4 5
      "''Alice''" "''ACC1''" "[]" "[]"] h1 h2
  show ?thesis by simp
qed

subsection \<open>Fields that the operations leave alone\<close>

text \<open>
  Claim C10. \<open>deposit\<close> and \<open>withdraw\<close> never change the identifier, the name,
  the account number, the creation time or the closed flag of the account;
  \<open>close_account\<close> never changes the identifier, the account number or the creation
  time.
\<close>

theorem operations_frame:
  "acc_id (fst (deposit u now amt a)) = acc_id a \<and>
   name (fst (deposit u now amt a)) = name a \<and>
   account_number (fst (deposit u now amt a)) = account_number a \<and>
   created_at (fst (deposit u now amt a)) = created_at a \<and>
   is_closed (fst (deposit u now amt a)) = is_closed a \<and>
   acc_id (fst (withdraw u now amt a)) = acc_id a \<and>
   name (fst (withdraw u now amt a)) = name a \<and>
   account_number (fst (withdraw u now amt a)) = account_number a \<and>
   created_at (fst (withdraw u now amt a)) = created_at a \<and>
   is_closed (fst (withdraw u now amt a)) = is_closed a \<and>
   acc_id (fst (close_account u now a)) = acc_id a \<and>
   account_number (fst (close_account u now a)) = account_number a \<and>
   created_at (fst (close_account u now a)) = created_at a"
  by (simp add: deposit_def withdraw_def close_account_def record_transaction_snd)

end
